theory Spec2Isabelle
  imports Complex_Main
begin

section \<open>Python values of \<^verbatim>\<open>mapproxy/source/mapnik.py\<close>\<close>

text \<open>
  Exceptions are values. \<open>RuntimeError\<close> carries its \<open>args\<close> tuple, because
  \<open>get_map\<close> reads \<open>ex.args[0]\<close>; \<open>AttributeError\<close> and \<open>NameError\<close> carry the name
  that was looked up. \<open>OtherError\<close> stands for an exception of any class that is
  neither one of the named ones nor a subclass of \<open>RuntimeError\<close>.
\<close>

datatype exc =
    RuntimeError "string list"
  | NameError string
  | AttributeError string
  | KeyError
  | IndexError
  | BlankImage
  | SourceError string
  | OtherError string

text \<open>
  A call returns, raises, or blocks: \<open>Event.wait()\<close> on an event that is not set does
  not return until another thread sets it, and this model runs one call at a time.
\<close>

datatype 'a outcome = Return 'a | Raise exc | Block

type_synonym bbox = "real \<times> real \<times> real \<times> real"
type_synonym bytes = string

record layer =
  name :: string
  datasource :: string

text \<open>The \<open>mapnik.Map\<close> object: the fields this module reads or writes.\<close>

record mapnik_map =
  width :: int
  height :: int
  srs :: string
  envelope :: "bbox option"
  layers :: "layer list"

record query =
  q_bbox :: bbox
  q_size :: "int \<times> int"
  q_srs_code :: string
  q_format :: string

record coverage_t =
  cov_bbox :: bbox
  cov_srs :: string
  intersects :: "bbox \<Rightarrow> string \<Rightarrow> bool"

record res_range_t =
  contains :: "bbox \<Rightarrow> int \<times> int \<Rightarrow> string \<Rightarrow> bool"

record MapnikSource =
  mapfile :: string
  coverage :: "coverage_t option"
  res_range :: "res_range_t option"
  src_layers :: "string set option"
  scale_factor :: "real option"
  lock :: bool
  cache_map_obj :: bool
  opacity :: "real option"
  extent :: "(bbox \<times> string) option"

record image_source =
  is_data :: bytes
  is_size :: "int \<times> int"
  is_format :: string
  is_opacity :: "real option"

text \<open>
  The argument of \<open>log_request\<close>. The first argument is the string
  \<open>'%s:%s:%s:%s' % (mapfile, query.bbox, query.srs.srs_code, query.size)\<close>; its four
  components are kept apart here.
\<close>

record log_record =
  log_mapfile :: string
  log_bbox :: bbox
  log_srs_code :: string
  log_size :: "int \<times> int"
  status :: string
  bytesize :: "nat option"
  log_method :: string
  duration :: real

section \<open>The engine binding and the module's state\<close>

type_synonym ref = nat
type_synonym cachekey = "int list \<times> nat \<times> string"

datatype engine_call =
    Call_Map int int
  | Call_load_map string
  | Call_clear_cache
  | Call_resize int int
  | Call_set_srs string
  | Call_Box2d bbox
  | Call_zoom_to_box bbox
  | Call_Image int int
  | Call_render mapnik_map "real option"
  | Call_tostring string

text \<open>
  What the \<open>mapnik\<close> binding, the clock and the tile grid answer during one call of
  this module. They are not part of the repository's source and are parameters here;
  each call of the binding can raise. \<open>time_time\<close> is the reading of \<open>time.time()\<close>
  after the given engine calls. For the calls that return nothing (\<open>m.resize\<close>, the
  assignment to \<open>m.srs\<close>, \<open>mapnik.Box2d\<close>, \<open>m.zoom_to_box\<close>, \<open>mapnik.clear_cache\<close>)
  the answer is the exception raised, if any.
\<close>

record engine =
  mapnik_Map :: "int \<Rightarrow> int \<Rightarrow> exc + mapnik_map"
  mapnik_load_map :: "mapnik_map \<Rightarrow> string \<Rightarrow> exc + mapnik_map"
  mapnik_Image :: "int \<Rightarrow> int \<Rightarrow> exc + nat"
  mapnik_render :: "mapnik_map \<Rightarrow> nat \<Rightarrow> real option \<Rightarrow> exc + nat"
  tostring :: "nat \<Rightarrow> string \<Rightarrow> exc + bytes"
  webmercator_format :: "string \<Rightarrow> query \<Rightarrow> exc + string"
  time_time :: "engine_call list \<Rightarrow> real"
  map_resize :: "mapnik_map \<Rightarrow> int \<Rightarrow> int \<Rightarrow> exc option"
  map_set_srs :: "mapnik_map \<Rightarrow> string \<Rightarrow> exc option"
  mapnik_Box2d :: "bbox \<Rightarrow> exc option"
  map_zoom_to_box :: "mapnik_map \<Rightarrow> bbox \<Rightarrow> exc option"
  mapnik_clear_cache :: "exc option"

text \<open>
  The execution context of a call: \<open>multiprocessing.current_process()._identity\<close> (a
  tuple of numbers) and the identifier of the calling thread (the \<open>ident\<close> of its
  \<open>Thread\<close> object, which the module does not read).
\<close>

record exec_context =
  process_id :: "int list"
  thread_id :: nat

text \<open>
  The module's globals and the objects they reach. \<open>map_objs\<close> is \<open>_map_objs\<close>, a dict
  from cache keys to map objects (references into \<open>heap\<close>); \<open>map_loading\<close> is
  \<open>_map_loading\<close>, a dict from cache keys to \<open>threading.Event\<close> objects (\<open>True\<close> when
  set). \<open>proc\<close> is what the global name \<open>proc\<close> is bound to; the module binds no such
  name, so it is \<open>None\<close> unless something outside the module binds it. \<open>calls\<close> records
  the calls made to the engine binding, \<open>request_log\<close> the calls of \<open>log_request\<close>, \<open>errlog\<close>
  the calls of \<open>log.error\<close>.
\<close>

record state =
  map_objs :: "cachekey \<rightharpoonup> ref"
  map_loading :: "cachekey \<rightharpoonup> bool"
  proc :: "string option"
  heap :: "ref \<Rightarrow> mapnik_map"
  next_ref :: ref
  calls :: "engine_call list"
  request_log :: "log_record list"
  errlog :: "exc list"

section \<open>\<open>MapnikSource.__init__\<close>\<close>

text \<open>
  \<open>self.layers = set(layers) if layers else None\<close>, and the three globals are bound
  anew: both tables to empty dicts (the lock has no content in a model that runs one
  call at a time).
\<close>

definition init_layers :: "string list option \<Rightarrow> string set option" where
  "init_layers ls = (case ls of None \<Rightarrow> None | Some [] \<Rightarrow> None | Some (x # xs) \<Rightarrow> Some (set (x # xs)))"

definition init ::
  "string \<Rightarrow> string list option \<Rightarrow> real option \<Rightarrow> coverage_t option \<Rightarrow> res_range_t option \<Rightarrow>
   bool \<Rightarrow> bool \<Rightarrow> real option \<Rightarrow> state \<Rightarrow> MapnikSource \<times> state" where
  "init mf ls image_opacity cov rr lk reuse_map_objects sf s =
     (\<lparr>mapfile = mf, coverage = cov, res_range = rr, src_layers = init_layers ls,
       scale_factor = sf, lock = lk, cache_map_obj = reuse_map_objects,
       opacity = image_opacity,
       extent = (case cov of Some c \<Rightarrow> Some (cov_bbox c, cov_srs c) | None \<Rightarrow> None)\<rparr>,
      s\<lparr>map_objs := Map.empty, map_loading := Map.empty\<rparr>)"

section \<open>\<open>MapnikSource.map_obj\<close>\<close>

text \<open>
  Line 102, \<open>threading.current_thread().get_ident\<close>. \<open>current_thread()\<close> is a \<open>Thread\<close>
  object, and the attributes of \<open>Thread\<close> objects are \<open>name\<close>, \<open>ident\<close>, \<open>native_id\<close>,
  \<open>daemon\<close> and the methods \<open>start\<close>, \<open>run\<close>, \<open>join\<close>, \<open>is_alive\<close>; \<open>get_ident\<close> is a
  function of the module \<open>threading\<close>, not an attribute of its threads. The attribute
  expression raises \<open>AttributeError\<close> in every thread.
\<close>

definition get_ident_attribute :: "exec_context \<Rightarrow> exc + nat" where
  "get_ident_attribute ctx = Inl (AttributeError ''get_ident'')"

definition lookup_map_obj :: "cachekey \<Rightarrow> state \<Rightarrow> ref outcome \<times> state" where
  "lookup_map_obj k s = (case map_objs s k of None \<Rightarrow> (Raise KeyError, s) | Some r \<Rightarrow> (Return r, s))"

text \<open>
  Lines 109 to 129, for a cache key \<open>k\<close>. On the first path the event is stored before
  the lock is taken; the first \<open>print\<close> under the lock evaluates the global \<open>proc\<close>; then
  come \<open>mapnik.Map(0, 0)\<close>, \<open>mapnik.load_map\<close>, the store into \<open>_map_objs\<close> and \<open>set()\<close>.
  On the other path come \<open>wait()\<close> and \<open>mapnik.clear_cache()\<close>. Both end in
  \<open>return _map_objs[cachekey]\<close>.
\<close>

definition map_obj_from_key :: "engine \<Rightarrow> cachekey \<Rightarrow> string \<Rightarrow> state \<Rightarrow> ref outcome \<times> state" where
  "map_obj_from_key eng k mf s =
     (case map_loading s k of
        None \<Rightarrow>
          (let s1 = s\<lparr>map_loading := (map_loading s)(k \<mapsto> False)\<rparr> in
           case proc s1 of
             None \<Rightarrow> (Raise (NameError ''proc''), s1)
           | Some _ \<Rightarrow>
               (let s2 = s1\<lparr>calls := calls s1 @ [Call_Map 0 0]\<rparr> in
                case mapnik_Map eng 0 0 of
                  Inl e \<Rightarrow> (Raise e, s2)
                | Inr m \<Rightarrow>
                    (let r = next_ref s2;
                         s3 = s2\<lparr>heap := (heap s2)(r := m), next_ref := Suc r,
                                 calls := calls s2 @ [Call_load_map mf]\<rparr> in
                     case mapnik_load_map eng m mf of
                       Inl e \<Rightarrow> (Raise e, s3)
                     | Inr m' \<Rightarrow>
                         (let s4 = s3\<lparr>heap := (heap s3)(r := m')\<rparr>;
                              s5 = s4\<lparr>map_objs := (map_objs s4)(k \<mapsto> r)\<rparr>;
                              s6 = s5\<lparr>map_loading := (map_loading s5)(k \<mapsto> True)\<rparr>
                          in lookup_map_obj k s6))))
      | Some ev \<Rightarrow>
          (if \<not> ev then (Block, s)
           else (let s1 = s\<lparr>calls := calls s @ [Call_clear_cache]\<rparr> in
                 case mapnik_clear_cache eng of
                   Some e \<Rightarrow> (Raise e, s1)
                 | None \<Rightarrow> lookup_map_obj k s1)))"

text \<open>
  Lines 101 to 129: the thread identity (line 102), the process identity (line 103), the
  cache key (line 104), then the rest. The exception of line 102 leaves the function
  before anything else is done.
\<close>

definition map_obj :: "engine \<Rightarrow> exec_context \<Rightarrow> string \<Rightarrow> state \<Rightarrow> ref outcome \<times> state" where
  "map_obj eng ctx mf s =
     (case get_ident_attribute ctx of
        Inl e \<Rightarrow> (Raise e, s)
      | Inr tid \<Rightarrow> map_obj_from_key eng (process_id ctx, tid, mf) mf s)"

section \<open>\<open>MapnikSource._render_mapfile\<close>\<close>

text \<open>\<open>del m.layers[i]\<close>: an index out of range raises \<open>IndexError\<close>.\<close>

definition delete_at :: "nat \<Rightarrow> 'a list \<Rightarrow> exc + 'a list" where
  "delete_at i xs = (if i < length xs then Inr (take i xs @ drop (Suc i) xs) else Inl IndexError)"

text \<open>
  Lines 146 to 151: the loop runs over the copy \<open>m.layers[:]\<close> (second argument) and
  deletes from the map's own list (fourth argument) at the running index \<open>i\<close>.
\<close>

fun filter_loop :: "string set \<Rightarrow> layer list \<Rightarrow> nat \<Rightarrow> layer list \<Rightarrow> exc option \<times> layer list" where
  "filter_loop A [] i cur = (None, cur)"
| "filter_loop A (l # ls) i cur =
     (if name l \<noteq> ''Unkown'' \<and> name l \<notin> A
      then (case delete_at i cur of
              Inl e \<Rightarrow> (Some e, cur)
            | Inr cur' \<Rightarrow> filter_loop A ls i cur')
      else filter_loop A ls (Suc i) cur)"

definition filter_layers :: "MapnikSource \<Rightarrow> ref \<Rightarrow> state \<Rightarrow> exc option \<times> state" where
  "filter_layers src r s =
     (case src_layers src of
        None \<Rightarrow> (None, s)
      | Some A \<Rightarrow>
          (if A = {} then (None, s)
           else (let m = heap s r;
                     res = filter_loop A (layers m) 0 (layers m)
                 in (fst res, s\<lparr>heap := (heap s)(r := m\<lparr>layers := snd res\<rparr>)\<rparr>))))"

text \<open>\<open>str.lower()\<close> on the ASCII letters.\<close>

definition lower_chr :: "char \<Rightarrow> char" where
  "lower_chr c =
     (case map_of (zip ''ABCDEFGHIJKLMNOPQRSTUVWXYZ'' ''abcdefghijklmnopqrstuvwxyz'') c of
        None \<Rightarrow> c
      | Some d \<Rightarrow> d)"

text \<open>
  Lines 138 to 141: \<open>m.resize\<close>, the assignment to \<open>m.srs\<close>, \<open>mapnik.Box2d\<close> and
  \<open>m.zoom_to_box\<close>, in this order; the first that raises ends the configuration.
\<close>

definition configure :: "engine \<Rightarrow> query \<Rightarrow> ref \<Rightarrow> state \<Rightarrow> exc option \<times> state" where
  "configure eng q r s =
     (let w = fst (q_size q); h = snd (q_size q);
          code = ''+init='' @ map lower_chr (q_srs_code q);
          s1 = s\<lparr>calls := calls s @ [Call_resize w h]\<rparr> in
      case map_resize eng (heap s1 r) w h of
        Some e \<Rightarrow> (Some e, s1)
      | None \<Rightarrow>
          (let s2 = s1\<lparr>heap := (heap s1)(r := (heap s1 r)\<lparr>width := w, height := h\<rparr>),
                       calls := calls s1 @ [Call_set_srs code]\<rparr> in
           case map_set_srs eng (heap s2 r) code of
             Some e \<Rightarrow> (Some e, s2)
           | None \<Rightarrow>
               (let s3 = s2\<lparr>heap := (heap s2)(r := (heap s2 r)\<lparr>srs := code\<rparr>),
                            calls := calls s2 @ [Call_Box2d (q_bbox q)]\<rparr> in
                case mapnik_Box2d eng (q_bbox q) of
                  Some e \<Rightarrow> (Some e, s3)
                | None \<Rightarrow>
                    (let s4 = s3\<lparr>calls := calls s3 @ [Call_zoom_to_box (q_bbox q)]\<rparr> in
                     case map_zoom_to_box eng (heap s4 r) (q_bbox q) of
                       Some e \<Rightarrow> (Some e, s4)
                     | None \<Rightarrow>
                         (None, s4\<lparr>heap := (heap s4)(r := (heap s4 r)\<lparr>envelope := Some (q_bbox q)\<rparr>)\<rparr>)))))"

text \<open>Lines 145 to 162, the body of \<open>try\<close>.\<close>

definition try_block :: "engine \<Rightarrow> MapnikSource \<Rightarrow> query \<Rightarrow> ref \<Rightarrow> state \<Rightarrow> (exc + bytes) \<times> state" where
  "try_block eng src q r s =
     (case filter_layers src r s of
        (Some e, s1) \<Rightarrow> (Inl e, s1)
      | (None, s1) \<Rightarrow>
          (let s2 = s1\<lparr>calls := calls s1 @ [Call_Image (fst (q_size q)) (snd (q_size q))]\<rparr> in
           case mapnik_Image eng (fst (q_size q)) (snd (q_size q)) of
             Inl e \<Rightarrow> (Inl e, s2)
           | Inr img \<Rightarrow>
               (let sf = (case scale_factor src of
                            None \<Rightarrow> None
                          | Some f \<Rightarrow> if f = 0 then None else Some f);
                    s3 = s2\<lparr>calls := calls s2 @ [Call_render (heap s2 r) sf]\<rparr> in
                case mapnik_render eng (heap s2 r) img sf of
                  Inl e \<Rightarrow> (Inl e, s3)
                | Inr img' \<Rightarrow>
                    (let s4 = s3\<lparr>calls := calls s3 @ [Call_tostring (q_format q)]\<rparr> in
                     case tostring eng img' (q_format q) of
                       Inl e \<Rightarrow> (Inl e, s4)
                     | Inr d \<Rightarrow> (Inr d, s4)))))"

text \<open>Lines 164 to 168, the body of \<open>finally\<close>; \<open>data\<close> is \<open>None\<close> unless \<open>tostring\<close> returned.\<close>

definition finally_log :: "engine \<Rightarrow> string \<Rightarrow> query \<Rightarrow> real \<Rightarrow> bytes option \<Rightarrow> state \<Rightarrow> state" where
  "finally_log eng mf q start_time data s =
     (let truthy = (case data of None \<Rightarrow> False | Some d \<Rightarrow> d \<noteq> []);
          sz = (case data of None \<Rightarrow> None | Some d \<Rightarrow> if d \<noteq> [] then Some (length d) else None)
      in s\<lparr>request_log := request_log s @
             [\<lparr>log_mapfile = mf, log_bbox = q_bbox q, log_srs_code = q_srs_code q,
               log_size = q_size q, status = (if truthy then ''200'' else ''500''),
               bytesize = sz, log_method = ''API'',
               duration = time_time eng (calls s) - start_time\<rparr>]\<rparr>)"

text \<open>
  Lines 138 to 170, for the map object \<open>r\<close> that \<open>map_obj\<close> returned: the configuration,
  then \<open>try\<close> and \<open>finally\<close>, then the result. An exception of the configuration leaves
  the function before the \<open>try\<close> of line 144 is entered.
\<close>

definition render_handle ::
  "engine \<Rightarrow> MapnikSource \<Rightarrow> string \<Rightarrow> query \<Rightarrow> real \<Rightarrow> ref \<Rightarrow> state \<Rightarrow> image_source outcome \<times> state" where
  "render_handle eng src mf q start_time r s =
     (case configure eng q r s of
        (Some e, s2) \<Rightarrow> (Raise e, s2)
      | (None, s2) \<Rightarrow>
          (case try_block eng src q r s2 of
             (Inl e, s3) \<Rightarrow> (Raise e, finally_log eng mf q start_time None s3)
           | (Inr d, s3) \<Rightarrow>
               (Return \<lparr>is_data = d, is_size = q_size q, is_format = q_format q, is_opacity = None\<rparr>,
                finally_log eng mf q start_time (Some d) s3)))"

text \<open>Lines 134 to 170: the start time, \<open>map_obj\<close> (line 137), then the rest.\<close>

definition private_render_mapfile ::
  "engine \<Rightarrow> exec_context \<Rightarrow> MapnikSource \<Rightarrow> string \<Rightarrow> query \<Rightarrow> state \<Rightarrow> image_source outcome \<times> state" where
  "private_render_mapfile eng ctx src mf q s =
     (let start_time = time_time eng (calls s) in
      case map_obj eng ctx mf s of
        (Raise e, s1) \<Rightarrow> (Raise e, s1)
      | (Block, s1) \<Rightarrow> (Block, s1)
      | (Return r, s1) \<Rightarrow> render_handle eng src mf q start_time r s1)"

section \<open>\<open>render_mapfile\<close>, \<open>render\<close> and \<open>get_map\<close>\<close>

text \<open>
  Modelled from the spec: \<open>run_non_blocking\<close> of \<open>mapproxy.util.async_\<close> is not among
  the source files. The worker runs the function on the arguments and the caller is
  suspended until the worker completes or fails, so the caller sees the worker's result
  or its exception.
\<close>

definition run_non_blocking :: "('a \<Rightarrow> state \<Rightarrow> 'b outcome \<times> state) \<Rightarrow> 'a \<Rightarrow> state \<Rightarrow> 'b outcome \<times> state" where
  "run_non_blocking f args s = f args s"

definition render_mapfile ::
  "engine \<Rightarrow> exec_context \<Rightarrow> MapnikSource \<Rightarrow> string \<Rightarrow> query \<Rightarrow> state \<Rightarrow> image_source outcome \<times> state" where
  "render_mapfile eng ctx src mf q s =
     run_non_blocking (\<lambda>(mf', q'). private_render_mapfile eng ctx src mf' q') (mf, q) s"

text \<open>Python's \<open>needle in haystack\<close> on strings.\<close>

fun starts_with :: "string \<Rightarrow> string \<Rightarrow> bool" where
  "starts_with [] ys = True"
| "starts_with (x # xs) [] = False"
| "starts_with (x # xs) (y # ys) = (x = y \<and> starts_with xs ys)"

fun str_in :: "string \<Rightarrow> string \<Rightarrow> bool" where
  "str_in p [] = (p = [])"
| "str_in p (c # cs) = (starts_with p (c # cs) \<or> str_in p cs)"

text \<open>
  Lines 88 to 99. The lock, when configured, is taken around \<open>render_mapfile\<close> and
  released after it; with one call running at a time both branches do the same.
\<close>

definition render ::
  "engine \<Rightarrow> exec_context \<Rightarrow> MapnikSource \<Rightarrow> query \<Rightarrow> state \<Rightarrow> image_source outcome \<times> state" where
  "render eng ctx src q s =
     (case (if str_in ''%(webmercator_level)'' (mapfile src)
            then webmercator_format eng (mapfile src) q else Inr (mapfile src)) of
        Inl e \<Rightarrow> (Raise e, s)
      | Inr mf \<Rightarrow>
          (if lock src then render_mapfile eng ctx src mf q s
           else render_mapfile eng ctx src mf q s))"

text \<open>
  Lines 73 to 86. Only \<open>RuntimeError\<close> is caught; \<open>ex.args[0]\<close> raises \<open>IndexError\<close> on
  an empty \<open>args\<close>.
\<close>

definition get_map ::
  "engine \<Rightarrow> exec_context \<Rightarrow> MapnikSource \<Rightarrow> query \<Rightarrow> state \<Rightarrow> image_source outcome \<times> state" where
  "get_map eng ctx src q s =
     (if (case res_range src of
            None \<Rightarrow> False
          | Some rr \<Rightarrow> \<not> contains rr (q_bbox q) (q_size q) (q_srs_code q))
      then (Raise BlankImage, s)
      else if (case coverage src of
                 None \<Rightarrow> False
               | Some c \<Rightarrow> \<not> intersects c (q_bbox q) (q_srs_code q))
      then (Raise BlankImage, s)
      else (case render eng ctx src q s of
              (Raise (RuntimeError args), s1) \<Rightarrow>
                (let s2 = s1\<lparr>errlog := errlog s1 @ [RuntimeError args]\<rparr> in
                 case args of
                   [] \<Rightarrow> (Raise IndexError, s2)
                 | a # _ \<Rightarrow> (Raise (SourceError a), s2))
            | (Raise e, s1) \<Rightarrow> (Raise e, s1)
            | (Block, s1) \<Rightarrow> (Block, s1)
            | (Return resp, s1) \<Rightarrow> (Return (resp\<lparr>is_opacity := opacity src\<rparr>), s1)))"

section \<open>Concrete sources, engines and states\<close>

definition empty_map :: mapnik_map where
  "empty_map = \<lparr>width = 0, height = 0, srs = ''+proj=longlat'', envelope = None, layers = []\<rparr>"

definition demo_layers :: "layer list" where
  "demo_layers = [\<lparr>name = ''roads'', datasource = ''roads.shp''\<rparr>,
                  \<lparr>name = ''Unkown'', datasource = ''none''\<rparr>,
                  \<lparr>name = ''labels'', datasource = ''labels.shp''\<rparr>]"

text \<open>An engine on which every call succeeds; the clock counts the engine calls.\<close>

definition ok_engine :: engine where
  "ok_engine = \<lparr>mapnik_Map = (\<lambda>w h. Inr (empty_map\<lparr>width := w, height := h\<rparr>)),
                mapnik_load_map = (\<lambda>m f. Inr (m\<lparr>layers := demo_layers\<rparr>)),
                mapnik_Image = (\<lambda>w h. Inr 0),
                mapnik_render = (\<lambda>m img sf. Inr (length (layers m))),
                tostring = (\<lambda>img f. Inr ''PNG''),
                webmercator_format = (\<lambda>f q. Inr f),
                time_time = (\<lambda>cs. real (length cs)),
                map_resize = (\<lambda>m w h. None),
                map_set_srs = (\<lambda>m c. None),
                mapnik_Box2d = (\<lambda>b. None),
                map_zoom_to_box = (\<lambda>m b. None),
                mapnik_clear_cache = None\<rparr>"

text \<open>The same engine, except that \<open>mapnik.load_map\<close> raises.\<close>

definition failing_engine :: engine where
  "failing_engine = ok_engine\<lparr>mapnik_load_map := (\<lambda>m f. Inl (RuntimeError [''could not load map'']))\<rparr>"

text \<open>The same engine, except that \<open>m.resize\<close> raises.\<close>

definition resize_engine :: engine where
  "resize_engine = ok_engine\<lparr>map_resize := (\<lambda>m w h. Some (RuntimeError [''bad size'']))\<rparr>"

text \<open>The same engine, except that the tile grid raises while the level is resolved.\<close>

definition tiles_engine :: engine where
  "tiles_engine = ok_engine\<lparr>webmercator_format := (\<lambda>f q. Inl (RuntimeError [''no tile level'']))\<rparr>"

text \<open>The globals as the module's source leaves them: no name \<open>proc\<close>, both tables empty.\<close>

definition module_state :: state where
  "module_state = \<lparr>map_objs = Map.empty, map_loading = Map.empty, proc = None,
                   heap = (\<lambda>_. empty_map), next_ref = 0, calls = [], request_log = [], errlog = []\<rparr>"

text \<open>The same with the name \<open>proc\<close> bound from outside the module.\<close>

definition bound_state :: state where
  "bound_state = module_state\<lparr>proc := Some ''worker''\<rparr>"

definition main_ctx :: exec_context where
  "main_ctx = \<lparr>process_id = [], thread_id = 1\<rparr>"

definition other_ctx :: exec_context where
  "other_ctx = \<lparr>process_id = [], thread_id = 2\<rparr>"

text \<open>
  A state that holds a loaded map object, registered under the key of thread 1 of the
  main process for \<open>base.xml\<close>, with its event set.
\<close>

definition ready_state :: state where
  "ready_state = module_state\<lparr>map_objs := [([], 1, ''base.xml'') \<mapsto> 0],
                               map_loading := [([], 1, ''base.xml'') \<mapsto> True],
                               heap := (\<lambda>_. empty_map)(0 := empty_map\<lparr>layers := demo_layers\<rparr>),
                               next_ref := 1\<rparr>"

definition demo_query :: query where
  "demo_query = \<lparr>q_bbox = (0, 0, 10, 10), q_size = (256, 256), q_srs_code = ''EPSG:4326'',
                 q_format = ''png''\<rparr>"

definition bbox_intersects :: "bbox \<Rightarrow> bbox \<Rightarrow> bool" where
  "bbox_intersects a b =
     (case a of (ax0, ay0, ax1, ay1) \<Rightarrow> case b of (bx0, by0, bx1, by1) \<Rightarrow>
        ax0 \<le> bx1 \<and> bx0 \<le> ax1 \<and> ay0 \<le> by1 \<and> by0 \<le> ay1)"

definition far_coverage :: coverage_t where
  "far_coverage = \<lparr>cov_bbox = (20, 20, 30, 30), cov_srs = ''EPSG:4326'',
                   intersects = (\<lambda>b c. bbox_intersects (20, 20, 30, 30) b)\<rparr>"

definition demo_source :: MapnikSource where
  "demo_source = fst (init ''base.xml'' None None None None False False None module_state)"

definition roads_source :: MapnikSource where
  "roads_source = fst (init ''base.xml'' (Some [''roads'']) None None None False False None module_state)"

definition guarded_source :: MapnikSource where
  "guarded_source = fst (init ''base.xml'' None None (Some far_coverage) None False False None module_state)"

definition level_source :: MapnikSource where
  "level_source =
     fst (init ''osm-%(webmercator_level)s.xml'' None None None None False False None module_state)"

text \<open>\<open>n\<close> callers of \<open>map_obj\<close> for one mapfile in one context, one after the other.\<close>

fun callers :: "engine \<Rightarrow> exec_context \<Rightarrow> string \<Rightarrow> nat \<Rightarrow> state \<Rightarrow> ref outcome list \<times> state" where
  "callers eng ctx mf 0 s = ([], s)"
| "callers eng ctx mf (Suc n) s =
     (case map_obj eng ctx mf s of
        (out, s1) \<Rightarrow> (case callers eng ctx mf n s1 of (outs, s2) \<Rightarrow> (out # outs, s2)))"

section \<open>The layer filter\<close>

lemma delete_at_middle: "delete_at (length pre) (pre @ l # ls) = Inr (pre @ ls)"
  by (simp add: delete_at_def)

text \<open>
  The loop's invariant: the map's list is the layers kept so far followed by the rest of
  the copy, and the index is the number of layers kept.
\<close>

lemma filter_loop_invariant:
  "filter_loop A ls (length pre) (pre @ ls) =
     (None, pre @ filter (\<lambda>l. name l = ''Unkown'' \<or> name l \<in> A) ls)"
proof (induction ls arbitrary: pre)
  case Nil
  show ?case by simp
next
  case (Cons l ls)
  show ?case
  proof (cases "name l \<noteq> ''Unkown'' \<and> name l \<notin> A")
    case True
    then show ?thesis using Cons.IH [of pre] by (simp add: delete_at_middle)
  next
    case False
    then show ?thesis using Cons.IH [of "pre @ [l]"] by auto
  qed
qed

lemma filter_loop_filter:
  "filter_loop A ls 0 ls = (None, filter (\<lambda>l. name l = ''Unkown'' \<or> name l \<in> A) ls)"
  using filter_loop_invariant [of A ls "[]"] by simp

lemma filter_layers_allow:
  assumes "src_layers src = Some A" and "A \<noteq> {}"
  shows "filter_layers src r s =
     (None, s\<lparr>heap := (heap s)(r := (heap s r)\<lparr>layers :=
          filter (\<lambda>l. name l = ''Unkown'' \<or> name l \<in> A) (layers (heap s r))\<rparr>)\<rparr>)"
  using assms by (simp add: filter_layers_def Let_def filter_loop_filter)

lemma filter_layers_none:
  assumes "src_layers src = None \<or> src_layers src = Some {}"
  shows "filter_layers src r s = (None, s)"
  using assms by (auto simp: filter_layers_def)

section \<open>The guards of \<open>get_map\<close>\<close>

text \<open>
  Claim C7. When a resolution range is configured and does not contain the query, or a
  coverage is configured and does not intersect the query's bounding box, \<open>get_map\<close>
  raises \<open>BlankImage\<close> and leaves the whole state as it was: no call reaches the
  engine binding, no handle is constructed, nothing is configured or drawn.
\<close>

theorem get_map_guard_short_circuit:
  assumes "(\<exists>rr. res_range src = Some rr \<and> \<not> contains rr (q_bbox q) (q_size q) (q_srs_code q))
         \<or> (\<exists>c. coverage src = Some c \<and> \<not> intersects c (q_bbox q) (q_srs_code q))"
  shows "get_map eng ctx src q s = (Raise BlankImage, s)"
  using assms by (auto simp: get_map_def)

theorem get_map_guard_short_circuit_witness:
  "(\<exists>c. coverage guarded_source = Some c \<and> \<not> intersects c (q_bbox demo_query) (q_srs_code demo_query))
   \<and> get_map ok_engine main_ctx guarded_source demo_query bound_state = (Raise BlankImage, bound_state)
   \<and> calls (snd (get_map ok_engine main_ctx guarded_source demo_query bound_state)) = []"
proof -
  have h: "\<exists>c. coverage guarded_source = Some c \<and> \<not> intersects c (q_bbox demo_query) (q_srs_code demo_query)"
    by (simp add: guarded_source_def init_def far_coverage_def demo_query_def bbox_intersects_def)
  have "get_map ok_engine main_ctx guarded_source demo_query bound_state = (Raise BlankImage, bound_state)"
    using get_map_guard_short_circuit [of guarded_source demo_query] h by blast
  then show ?thesis using h by (simp add: bound_state_def module_state_def)
qed

section \<open>Which layers a filtered render keeps\<close>

lemma try_block_render_call:
  assumes "src_layers src = Some A" and "A \<noteq> {}"
    and "mapnik_Image eng (fst (q_size q)) (snd (q_size q)) = Inr img"
  shows "\<exists>sf rest. calls (snd (try_block eng src q r s)) =
           calls s @ [Call_Image (fst (q_size q)) (snd (q_size q)),
                      Call_render ((heap s r)\<lparr>layers :=
                        filter (\<lambda>l. name l = ''Unkown'' \<or> name l \<in> A) (layers (heap s r))\<rparr>) sf] @ rest"
  using assms
  by (simp add: try_block_def filter_layers_allow Let_def split: sum.splits)

text \<open>
  Claim C9. With a configured (non-empty) allow-list, the filter leaves in the map
  exactly the layers named \<open>Unkown\<close> or named in the allow-list, in their order, and
  never fails; this is the map handed to \<open>mapnik.render\<close>. So a layer named \<open>Unkown\<close>
  is kept even when the allow-list lacks that name, and a layer is removed only when
  its name differs from \<open>Unkown\<close> and is absent from the allow-list.
\<close>

theorem filter_retains_Unkown_and_allowed:
  assumes "src_layers src = Some A" and "A \<noteq> {}"
  shows "filter_layers src r s =
           (None, s\<lparr>heap := (heap s)(r := (heap s r)\<lparr>layers :=
              filter (\<lambda>l. name l = ''Unkown'' \<or> name l \<in> A) (layers (heap s r))\<rparr>)\<rparr>)
       \<and> (\<forall>img. mapnik_Image eng (fst (q_size q)) (snd (q_size q)) = Inr img \<longrightarrow>
            (\<exists>sf rest. calls (snd (try_block eng src q r s)) =
               calls s @ [Call_Image (fst (q_size q)) (snd (q_size q)),
                          Call_render ((heap s r)\<lparr>layers :=
                            filter (\<lambda>l. name l = ''Unkown'' \<or> name l \<in> A) (layers (heap s r))\<rparr>) sf] @ rest))"
  using assms filter_layers_allow [OF assms] try_block_render_call [OF assms] by blast

theorem filter_retains_Unkown_and_allowed_witness:
  "src_layers roads_source = Some {''roads''} \<and> {''roads''} \<noteq> ({} :: string set)
   \<and> layers (heap (snd (filter_layers roads_source 0 ready_state)) 0) =
       [\<lparr>name = ''roads'', datasource = ''roads.shp''\<rparr>, \<lparr>name = ''Unkown'', datasource = ''none''\<rparr>]"
proof -
  have h: "src_layers roads_source = Some {''roads''}"
    by (simp add: roads_source_def init_def init_layers_def)
  have n: "{''roads''} \<noteq> ({} :: string set)" by simp
  show ?thesis
    using h n filter_retains_Unkown_and_allowed [OF h n, of 0 ready_state ok_engine demo_query]
    by (simp add: ready_state_def demo_layers_def)
qed

section \<open>Handle acquisition\<close>

text \<open>
  Every call of \<open>map_obj\<close> raises the \<open>AttributeError\<close> of line 102 and leaves the state
  as it was; so does every \<open>_render_mapfile\<close>, and every \<open>get_map\<close> that passes the
  guards and resolves its mapfile.
\<close>

lemma map_obj_AttributeError:
  "map_obj eng ctx mf s = (Raise (AttributeError ''get_ident''), s)"
  by (simp add: map_obj_def get_ident_attribute_def)

lemma private_render_mapfile_AttributeError:
  "private_render_mapfile eng ctx src mf q s = (Raise (AttributeError ''get_ident''), s)"
  by (simp add: private_render_mapfile_def map_obj_AttributeError)

lemma render_plain_mapfile:
  assumes "\<not> str_in ''%(webmercator_level)'' (mapfile src)"
  shows "render eng ctx src q s = (Raise (AttributeError ''get_ident''), s)"
  using assms
  by (simp add: render_def render_mapfile_def run_non_blocking_def private_render_mapfile_AttributeError)

lemma get_map_guards_pass:
  assumes "\<forall>rr. res_range src = Some rr \<longrightarrow> contains rr (q_bbox q) (q_size q) (q_srs_code q)"
    and "\<forall>c. coverage src = Some c \<longrightarrow> intersects c (q_bbox q) (q_srs_code q)"
  shows "get_map eng ctx src q s =
     (case render eng ctx src q s of
        (Raise (RuntimeError args), s1) \<Rightarrow>
          (let s2 = s1\<lparr>errlog := errlog s1 @ [RuntimeError args]\<rparr> in
           case args of
             [] \<Rightarrow> (Raise IndexError, s2)
           | a # _ \<Rightarrow> (Raise (SourceError a), s2))
      | (Raise e, s1) \<Rightarrow> (Raise e, s1)
      | (Block, s1) \<Rightarrow> (Block, s1)
      | (Return resp, s1) \<Rightarrow> (Return (resp\<lparr>is_opacity := opacity src\<rparr>), s1))"
  using assms by (simp add: get_map_def split: option.splits)

lemma init_fields:
  "mapfile (fst (init mf ls io cov rr lk reuse sf s)) = mf"
  "res_range (fst (init mf ls io cov rr lk reuse sf s)) = rr"
  "coverage (fst (init mf ls io cov rr lk reuse sf s)) = cov"
  "src_layers (fst (init mf ls io cov rr lk reuse sf s)) = init_layers ls"
  by (simp_all add: init_def)

lemma get_map_unguarded:
  assumes "res_range src = None" and "coverage src = None"
    and "\<not> str_in ''%(webmercator_level)'' (mapfile src)"
  shows "get_map eng ctx src q s = (Raise (AttributeError ''get_ident''), s)"
proof -
  have g1: "\<forall>rr. res_range src = Some rr \<longrightarrow> contains rr (q_bbox q) (q_size q) (q_srs_code q)"
    using assms(1) by simp
  have g2: "\<forall>c. coverage src = Some c \<longrightarrow> intersects c (q_bbox q) (q_srs_code q)"
    using assms(2) by simp
  show ?thesis
    by (simp add: get_map_guards_pass [OF g1 g2] render_plain_mapfile [OF assms(3)])
qed

lemma demo_source_fields:
  "mapfile demo_source = ''base.xml''" "res_range demo_source = None" "coverage demo_source = None"
  "src_layers demo_source = None"
  by (simp_all add: demo_source_def init_fields init_layers_def)

lemma roads_source_fields:
  "mapfile roads_source = ''base.xml''" "res_range roads_source = None" "coverage roads_source = None"
  "src_layers roads_source = Some {''roads''}"
  by (simp_all add: roads_source_def init_fields init_layers_def)

lemma base_xml_plain: "\<not> str_in ''%(webmercator_level)'' ''base.xml''"
  by simp

text \<open>
  Claim C1, evaluated for \<open>n\<close> callers of one key. Each caller's acquisition raises
  \<open>AttributeError\<close> at line 102, the first statement of \<open>map_obj\<close>, which reads and
  writes nothing that the callers share; so whatever the order in which \<open>n\<close> callers
  run, the result is that of \<open>n\<close> calls one after the other. No caller receives a
  handle, and the state, with its record of engine calls, is unchanged: \<open>mapnik.Map\<close>
  is never called.
\<close>

theorem no_caller_receives_a_handle:
  "callers eng ctx mf n s = (replicate n (Raise (AttributeError ''get_ident'')), s)"
  by (induction n) (simp_all add: map_obj_AttributeError)

text \<open>
  Claim C5, evaluated on the module's own state. The thread identity of line 102 is no
  value but an exception, in every context; no cache key is computed. Two acquisitions
  in the same context for the same resource do not share a handle, and an acquisition
  in another context does not obtain one: each raises, and \<open>_map_objs\<close> stays empty.
\<close>

theorem no_cache_key_is_computed:
  "get_ident_attribute main_ctx = Inl (AttributeError ''get_ident'')
   \<and> get_ident_attribute other_ctx = Inl (AttributeError ''get_ident'')
   \<and> map_obj ok_engine main_ctx ''base.xml'' module_state
       = (Raise (AttributeError ''get_ident''), module_state)
   \<and> map_obj ok_engine main_ctx ''base.xml''
        (snd (map_obj ok_engine main_ctx ''base.xml'' module_state))
       = (Raise (AttributeError ''get_ident''), module_state)
   \<and> map_obj ok_engine other_ctx ''base.xml'' module_state
       = (Raise (AttributeError ''get_ident''), module_state)
   \<and> map_objs module_state = Map.empty"
  by (simp add: map_obj_AttributeError get_ident_attribute_def) (simp add: module_state_def)

text \<open>
  Claim C2, evaluated on two \<open>get_map\<close> calls for \<open>base.xml\<close> in one thread, the first
  with an engine whose \<open>mapnik.load_map\<close> raises and the second with an engine that
  loads the map. Both calls raise the \<open>AttributeError\<close> of line 102, which the handler
  of line 82 does not catch; the constructor is reached in neither, and the second call
  does not succeed.
\<close>

theorem second_get_map_does_not_succeed:
  "get_map failing_engine main_ctx demo_source demo_query module_state
     = (Raise (AttributeError ''get_ident''), module_state)
   \<and> get_map ok_engine main_ctx demo_source demo_query
        (snd (get_map failing_engine main_ctx demo_source demo_query module_state))
     = (Raise (AttributeError ''get_ident''), module_state)"
  by (simp add: get_map_unguarded [OF demo_source_fields(2,3)] demo_source_fields base_xml_plain)

text \<open>
  Claim C3. Whatever the tables hold, the construction of a \<open>MapnikSource\<close> leaves both
  empty (lines 61 to 64). And a \<open>get_map\<close> through an instance constructed for
  \<open>base.xml\<close>, after whatever ran before, reuses no handle: it raises the
  \<open>AttributeError\<close> of line 102 and the tables stay empty.
\<close>

theorem init_rebinds_tables_to_empty:
  "map_objs (snd (init mf ls io cov rr lk reuse sf s)) = Map.empty
   \<and> map_loading (snd (init mf ls io cov rr lk reuse sf s)) = Map.empty
   \<and> get_map eng ctx (fst (init ''base.xml'' None None None None False False None s')) q
        (snd (init ''base.xml'' None None None None False False None s'))
      = (Raise (AttributeError ''get_ident''),
         snd (init ''base.xml'' None None None None False False None s'))"
  by (simp add: get_map_unguarded init_fields) (simp add: init_def)

section \<open>Lines 109 to 129 taken alone\<close>

text \<open>
  What the rest of \<open>map_obj\<close> does with a cache key, were one computed. With the name
  \<open>proc\<close> unbound, as the module leaves it, the first path stores the key's event and
  stops at the first \<open>print\<close> under the lock. A first path that raises, for whatever
  reason, leaves the event in the table, not set, and stores no handle; the next
  acquisition for the key waits on that event. The other path calls
  \<open>mapnik.clear_cache\<close> once and reads the cached handle.
\<close>

lemma map_obj_from_key_unbound:
  assumes "map_loading s k = None" and "proc s = None"
  shows "map_obj_from_key eng k mf s =
     (Raise (NameError ''proc''), s\<lparr>map_loading := (map_loading s)(k \<mapsto> False)\<rparr>)"
  using assms by (simp add: map_obj_from_key_def)

lemma map_obj_from_key_wait:
  "map_loading s k = Some False \<Longrightarrow> map_obj_from_key eng k mf s = (Block, s)"
  by (simp add: map_obj_from_key_def)

lemma map_obj_from_key_raise_leaves_event_unset:
  assumes "map_loading s k = None" and "map_obj_from_key eng k mf s = (Raise e, s')"
  shows "map_loading s' k = Some False \<and> map_objs s' = map_objs s
       \<and> map_obj_from_key eng' k mf s' = (Block, s')"
proof -
  have "map_loading s' k = Some False \<and> map_objs s' = map_objs s"
    using assms
    by (auto simp: map_obj_from_key_def lookup_map_obj_def Let_def
             split: option.splits sum.splits if_splits)
  then show ?thesis by (simp add: map_obj_from_key_wait)
qed

lemma map_obj_from_key_hit:
  assumes "map_loading s k = Some True" and "mapnik_clear_cache eng = None"
  shows "map_obj_from_key eng k mf s =
     (case map_objs s k of None \<Rightarrow> Raise KeyError | Some r \<Rightarrow> Return r,
      s\<lparr>calls := calls s @ [Call_clear_cache]\<rparr>)"
  using assms by (simp add: map_obj_from_key_def lookup_map_obj_def Let_def split: option.splits)

lemma map_obj_from_key_first_calls:
  "map_loading s k = None \<Longrightarrow>
   \<exists>cs. calls (snd (map_obj_from_key eng k mf s)) = calls s @ cs \<and> Call_clear_cache \<notin> set cs"
  by (simp add: map_obj_from_key_def lookup_map_obj_def Let_def split: option.splits sum.splits)

section \<open>What lines 138 to 170 change\<close>

lemma filter_layers_frame:
  "map_objs (snd (filter_layers src r s)) = map_objs s
   \<and> map_loading (snd (filter_layers src r s)) = map_loading s
   \<and> request_log (snd (filter_layers src r s)) = request_log s
   \<and> calls (snd (filter_layers src r s)) = calls s
   \<and> (\<forall>r'. r' \<noteq> r \<longrightarrow> heap (snd (filter_layers src r s)) r' = heap s r')"
  by (simp add: filter_layers_def Let_def split: option.splits)

lemma try_block_frame:
  "map_objs (snd (try_block eng src q r s)) = map_objs s
   \<and> map_loading (snd (try_block eng src q r s)) = map_loading s
   \<and> request_log (snd (try_block eng src q r s)) = request_log s
   \<and> (\<forall>r'. r' \<noteq> r \<longrightarrow> heap (snd (try_block eng src q r s)) r' = heap s r')"
proof (cases "filter_layers src r s")
  case (Pair fe s1)
  with filter_layers_frame [of src r s] show ?thesis
    by (simp add: try_block_def Let_def split: option.splits sum.splits)
qed


lemma configure_frame:
  "map_objs (snd (configure eng q r s)) = map_objs s
   \<and> map_loading (snd (configure eng q r s)) = map_loading s
   \<and> request_log (snd (configure eng q r s)) = request_log s
   \<and> layers (heap (snd (configure eng q r s)) r) = layers (heap s r)
   \<and> (\<forall>r'. r' \<noteq> r \<longrightarrow> heap (snd (configure eng q r s)) r' = heap s r')"
  by (simp add: configure_def Let_def split: option.splits)


lemma render_handle_configured:
  assumes "fst (configure eng q r s) = None"
  shows "render_handle eng src mf q t r s =
     (case try_block eng src q r (snd (configure eng q r s)) of
        (Inl e, s3) \<Rightarrow> (Raise e, finally_log eng mf q t None s3)
      | (Inr d, s3) \<Rightarrow>
          (Return \<lparr>is_data = d, is_size = q_size q, is_format = q_format q, is_opacity = None\<rparr>,
           finally_log eng mf q t (Some d) s3))"
  using assms by (cases "configure eng q r s") (simp add: render_handle_def)

lemma render_handle_not_configured:
  assumes "fst (configure eng q r s) = Some e"
  shows "render_handle eng src mf q t r s = (Raise e, snd (configure eng q r s))"
  using assms by (cases "configure eng q r s") (simp add: render_handle_def)




lemma ok_engine_configures: "fst (configure ok_engine q r s) = None"
  by (simp add: configure_def ok_engine_def Let_def)






section \<open>The request log\<close>

lemma private_render_mapfile_not_acquired:
  assumes "\<forall>r. fst (map_obj eng ctx mf s) \<noteq> Return r"
  shows "private_render_mapfile eng ctx src mf q s =
           (case fst (map_obj eng ctx mf s) of Raise e \<Rightarrow> Raise e | _ \<Rightarrow> Block, snd (map_obj eng ctx mf s))"
proof (cases "map_obj eng ctx mf s")
  case (Pair out s1)
  with assms show ?thesis
    by (cases out) (simp_all add: private_render_mapfile_def Let_def)
qed

lemma map_obj_log: "request_log (snd (map_obj eng ctx mf s)) = request_log s"
  by (simp add: map_obj_AttributeError)

lemma render_handle_log_record:
  assumes cfg: "fst (configure eng q r s) = None"
  shows "\<exists>rec. request_log (snd (render_handle eng src mf q t r s)) = request_log s @ [rec]
        \<and> log_mapfile rec = mf \<and> log_bbox rec = q_bbox q \<and> log_srs_code rec = q_srs_code q
        \<and> log_size rec = q_size q \<and> log_method rec = ''API''
        \<and> duration rec = time_time eng (calls (snd (render_handle eng src mf q t r s))) - t
        \<and> (case fst (render_handle eng src mf q t r s) of
              Return img \<Rightarrow>
                (if is_data img = [] then status rec = ''500'' \<and> bytesize rec = None
                 else status rec = ''200'' \<and> bytesize rec = Some (length (is_data img)))
            | Raise e \<Rightarrow> status rec = ''500'' \<and> bytesize rec = None
            | Block \<Rightarrow> False)"
proof (cases "try_block eng src q r (snd (configure eng q r s))")
  case (Pair res s3)
  have "request_log s3 = request_log (snd (configure eng q r s))"
    using try_block_frame [of eng src q r "snd (configure eng q r s)"] Pair by simp
  also have "\<dots> = request_log s" using configure_frame [of eng q r s] by simp
  finally have l: "request_log s3 = request_log s" .
  show ?thesis
  proof (cases res)
    case (Inl e)
    then show ?thesis
      using render_handle_configured [OF cfg, of src mf t] Pair l
      by (simp add: finally_log_def)
  next
    case (Inr d)
    then show ?thesis
      using render_handle_configured [OF cfg, of src mf t] Pair l
      by (simp add: finally_log_def)
  qed
qed

text \<open>
  Claim C8, as amended. The request-log record is written by the \<open>finally\<close> of the
  \<open>try\<close> of line 144. An invocation of \<open>_render_mapfile\<close> whose handle acquisition
  (line 137) does not return emits no record, and neither do lines 138 to 170 when the
  configuration of lines 138 to 141 raises. Once the configuration has returned,
  exactly one record is emitted, whether layer filtering, image allocation, drawing and
  encoding succeed or one of them raises. The record holds the resource identifier,
  bounding box, spatial reference code, size, the method and the time elapsed since the
  start; its status is \<open>200\<close> with the byte size when encoding returned non-empty data,
  and \<open>500\<close> without a byte size otherwise.
\<close>

theorem render_logs_once_from_try:
  "((\<forall>r. fst (map_obj eng ctx mf s) \<noteq> Return r) \<longrightarrow>
        request_log (snd (private_render_mapfile eng ctx src mf q s)) = request_log s)
   \<and> (\<forall>e. fst (configure eng q r s') = Some e \<longrightarrow>
        fst (render_handle eng src mf q t r s') = Raise e
        \<and> request_log (snd (render_handle eng src mf q t r s')) = request_log s')
   \<and> (fst (configure eng q r s') = None \<longrightarrow>
      (\<exists>rec. request_log (snd (render_handle eng src mf q t r s')) = request_log s' @ [rec]
        \<and> log_mapfile rec = mf \<and> log_bbox rec = q_bbox q \<and> log_srs_code rec = q_srs_code q
        \<and> log_size rec = q_size q \<and> log_method rec = ''API''
        \<and> duration rec = time_time eng (calls (snd (render_handle eng src mf q t r s'))) - t
        \<and> (case fst (render_handle eng src mf q t r s') of
              Return img \<Rightarrow>
                (if is_data img = [] then status rec = ''500'' \<and> bytesize rec = None
                 else status rec = ''200'' \<and> bytesize rec = Some (length (is_data img)))
            | Raise e \<Rightarrow> status rec = ''500'' \<and> bytesize rec = None
            | Block \<Rightarrow> False)))"
proof (intro conjI allI impI)
  assume "\<forall>r. fst (map_obj eng ctx mf s) \<noteq> Return r"
  then show "request_log (snd (private_render_mapfile eng ctx src mf q s)) = request_log s"
    by (simp add: private_render_mapfile_not_acquired map_obj_log)
next
  fix e
  assume "fst (configure eng q r s') = Some e"
  then show "fst (render_handle eng src mf q t r s') = Raise e"
    by (simp add: render_handle_not_configured)
next
  fix e
  assume "fst (configure eng q r s') = Some e"
  then show "request_log (snd (render_handle eng src mf q t r s')) = request_log s'"
    using configure_frame [of eng q r s'] by (simp add: render_handle_not_configured)
next
  assume "fst (configure eng q r s') = None"
  then show "\<exists>rec. request_log (snd (render_handle eng src mf q t r s')) = request_log s' @ [rec]
        \<and> log_mapfile rec = mf \<and> log_bbox rec = q_bbox q \<and> log_srs_code rec = q_srs_code q
        \<and> log_size rec = q_size q \<and> log_method rec = ''API''
        \<and> duration rec = time_time eng (calls (snd (render_handle eng src mf q t r s'))) - t
        \<and> (case fst (render_handle eng src mf q t r s') of
              Return img \<Rightarrow>
                (if is_data img = [] then status rec = ''500'' \<and> bytesize rec = None
                 else status rec = ''200'' \<and> bytesize rec = Some (length (is_data img)))
            | Raise e \<Rightarrow> status rec = ''500'' \<and> bytesize rec = None
            | Block \<Rightarrow> False)"
    by (rule render_handle_log_record)
qed

text \<open>
  Claim C8 as stated fails: from the module's own state a render fails while acquiring
  its handle, at line 137, and the request log stays empty.
\<close>

theorem render_log_counterexample:
  "fst (private_render_mapfile ok_engine main_ctx demo_source ''base.xml'' demo_query module_state)
     = Raise (AttributeError ''get_ident'')
   \<and> request_log (snd (private_render_mapfile ok_engine main_ctx demo_source ''base.xml'' demo_query
        module_state)) = []"
  by (simp add: private_render_mapfile_AttributeError) (simp add: module_state_def)

lemma resize_engine_configure:
  "fst (configure resize_engine q r s) = Some (RuntimeError [''bad size''])"
  by (simp add: configure_def resize_engine_def ok_engine_def Let_def)

theorem render_logs_once_from_try_witness:
  "(\<forall>r. fst (map_obj ok_engine main_ctx ''base.xml'' module_state) \<noteq> Return r)
   \<and> request_log (snd (private_render_mapfile ok_engine main_ctx demo_source ''base.xml'' demo_query
        module_state)) = []
   \<and> fst (configure resize_engine demo_query 0 ready_state) = Some (RuntimeError [''bad size''])
   \<and> fst (render_handle resize_engine demo_source ''base.xml'' demo_query 0 0 ready_state)
        = Raise (RuntimeError [''bad size''])
   \<and> request_log (snd (render_handle resize_engine demo_source ''base.xml'' demo_query 0 0 ready_state)) = []
   \<and> fst (configure ok_engine demo_query 0 ready_state) = None
   \<and> request_log (snd (render_handle ok_engine demo_source ''base.xml'' demo_query 0 0 ready_state)) =
       [\<lparr>log_mapfile = ''base.xml'', log_bbox = (0, 0, 10, 10), log_srs_code = ''EPSG:4326'',
         log_size = (256, 256), status = ''200'', bytesize = Some 3, log_method = ''API'',
         duration = 7\<rparr>]"
proof -
  let ?R = "render_handle ok_engine demo_source ''base.xml'' demo_query 0 0 ready_state"
  have l0: "request_log ready_state = []" "calls ready_state = []" "request_log module_state = []"
    by (simp_all add: ready_state_def module_state_def)
  have n: "\<forall>r. fst (map_obj ok_engine main_ctx ''base.xml'' module_state) \<noteq> Return r"
    by (simp add: map_obj_AttributeError)
  note a = render_logs_once_from_try [where eng = ok_engine and ctx = main_ctx
      and mf = "''base.xml''" and s = module_state and src = demo_source and q = demo_query
      and r = 0 and s' = ready_state and t = 0]
  note b = render_logs_once_from_try [where eng = resize_engine and ctx = main_ctx
      and mf = "''base.xml''" and s = module_state and src = demo_source and q = demo_query
      and r = 0 and s' = ready_state and t = 0]
  have 1: "request_log (snd (private_render_mapfile ok_engine main_ctx demo_source ''base.xml''
        demo_query module_state)) = []"
    using a n l0 by simp
  have 2: "fst (render_handle resize_engine demo_source ''base.xml'' demo_query 0 0 ready_state)
        = Raise (RuntimeError [''bad size''])
     \<and> request_log (snd (render_handle resize_engine demo_source ''base.xml'' demo_query 0 0 ready_state)) = []"
    using b [THEN conjunct2, THEN conjunct1, rule_format, OF resize_engine_configure] l0 by simp
  have out: "fst ?R = Return \<lparr>is_data = ''PNG'', is_size = (256, 256), is_format = ''png'', is_opacity = None\<rparr>"
    by (simp add: render_handle_def configure_def try_block_def filter_layers_def
        ok_engine_def Let_def demo_query_def demo_source_def init_def init_layers_def)
  have cs: "length (calls (snd ?R)) = 7"
    by (simp add: render_handle_def configure_def try_block_def filter_layers_def finally_log_def
        ok_engine_def Let_def demo_query_def demo_source_def init_def init_layers_def l0)
  from a [THEN conjunct2, THEN conjunct2, rule_format, OF ok_engine_configures]
  obtain rec where rec: "request_log (snd ?R) = [rec]" "log_mapfile rec = ''base.xml''"
      "log_bbox rec = q_bbox demo_query" "log_srs_code rec = q_srs_code demo_query"
      "log_size rec = q_size demo_query" "log_method rec = ''API''"
      "duration rec = time_time ok_engine (calls (snd ?R)) - 0"
      "status rec = ''200''" "bytesize rec = Some 3"
    using out l0 by auto
  have d: "duration rec = 7" using rec(7) cs by (simp add: ok_engine_def)
  have "rec = \<lparr>log_mapfile = ''base.xml'', log_bbox = (0, 0, 10, 10), log_srs_code = ''EPSG:4326'',
         log_size = (256, 256), status = ''200'', bytesize = Some 3, log_method = ''API'',
         duration = 7\<rparr>"
    using rec d by (cases rec) (simp add: demo_query_def)
  with rec(1) have 3: "request_log (snd ?R) =
       [\<lparr>log_mapfile = ''base.xml'', log_bbox = (0, 0, 10, 10), log_srs_code = ''EPSG:4326'',
         log_size = (256, 256), status = ''200'', bytesize = Some 3, log_method = ''API'',
         duration = 7\<rparr>]" by simp
  show ?thesis
    using n 1 2 3 resize_engine_configure [of demo_query 0 ready_state]
      ok_engine_configures [of demo_query 0 ready_state] by blast
qed

section \<open>Exceptions at the boundary of \<open>get_map\<close>\<close>

text \<open>
  Claim C6, as amended. When the guards pass and the render path raises a
  \<open>RuntimeError\<close> whose first argument is a message, \<open>get_map\<close> raises \<open>SourceError\<close>
  with that message. When the render path raises an exception of any other class,
  \<open>get_map\<close> does not catch it: the same exception leaves \<open>get_map\<close>.
\<close>

theorem get_map_translates_RuntimeError_only:
  assumes "\<forall>rr. res_range src = Some rr \<longrightarrow> contains rr (q_bbox q) (q_size q) (q_srs_code q)"
    and "\<forall>c. coverage src = Some c \<longrightarrow> intersects c (q_bbox q) (q_srs_code q)"
    and "render eng ctx src q s = (Raise e, s1)"
  shows "(\<forall>a as. e = RuntimeError (a # as) \<longrightarrow> fst (get_map eng ctx src q s) = Raise (SourceError a))
       \<and> ((\<forall>args. e \<noteq> RuntimeError args) \<longrightarrow> get_map eng ctx src q s = (Raise e, s1))"
  using assms(3) by (cases e) (simp_all add: get_map_guards_pass [OF assms(1,2)])

lemma level_source_fields:
  "mapfile level_source = ''osm-%(webmercator_level)s.xml''" "res_range level_source = None"
  "coverage level_source = None"
  by (simp_all add: level_source_def init_fields)

lemma level_source_render:
  "render tiles_engine ctx level_source q s = (Raise (RuntimeError [''no tile level'']), s)"
  by (simp add: render_def level_source_fields tiles_engine_def ok_engine_def)

lemma demo_source_render:
  "render eng ctx demo_source q s = (Raise (AttributeError ''get_ident''), s)"
  by (simp add: render_plain_mapfile demo_source_fields)

theorem get_map_translates_RuntimeError_only_witness:
  "res_range level_source = None \<and> coverage level_source = None
   \<and> render tiles_engine main_ctx level_source demo_query module_state
       = (Raise (RuntimeError [''no tile level'']), module_state)
   \<and> fst (get_map tiles_engine main_ctx level_source demo_query module_state)
       = Raise (SourceError ''no tile level'')
   \<and> res_range demo_source = None \<and> coverage demo_source = None
   \<and> render ok_engine main_ctx demo_source demo_query module_state
       = (Raise (AttributeError ''get_ident''), module_state)
   \<and> get_map ok_engine main_ctx demo_source demo_query module_state
       = (Raise (AttributeError ''get_ident''), module_state)"
proof -
  have g1: "\<forall>rr. res_range level_source = Some rr \<longrightarrow>
      contains rr (q_bbox demo_query) (q_size demo_query) (q_srs_code demo_query)"
    by (simp add: level_source_fields)
  have g2: "\<forall>c. coverage level_source = Some c \<longrightarrow> intersects c (q_bbox demo_query) (q_srs_code demo_query)"
    by (simp add: level_source_fields)
  have h1: "\<forall>rr. res_range demo_source = Some rr \<longrightarrow>
      contains rr (q_bbox demo_query) (q_size demo_query) (q_srs_code demo_query)"
    by (simp add: demo_source_fields)
  have h2: "\<forall>c. coverage demo_source = Some c \<longrightarrow> intersects c (q_bbox demo_query) (q_srs_code demo_query)"
    by (simp add: demo_source_fields)
  have 1: "fst (get_map tiles_engine main_ctx level_source demo_query module_state)
       = Raise (SourceError ''no tile level'')"
    using get_map_translates_RuntimeError_only [OF g1 g2 level_source_render] by simp
  have 2: "get_map ok_engine main_ctx demo_source demo_query module_state
       = (Raise (AttributeError ''get_ident''), module_state)"
    using get_map_translates_RuntimeError_only [OF h1 h2 demo_source_render] by simp
  show ?thesis
    using 1 2 by (simp add: level_source_fields demo_source_fields level_source_render demo_source_render)
qed

text \<open>
  Claim C6 as stated fails: a failure can leave \<open>get_map\<close> as something other than
  \<open>BlankImage\<close> or \<open>SourceError\<close>. From the module's own state a \<open>get_map\<close> that passes
  the guards raises the \<open>AttributeError\<close> of line 102, which is no \<open>RuntimeError\<close>.
\<close>

theorem get_map_untranslated_counterexample:
  "fst (get_map ok_engine main_ctx roads_source demo_query module_state)
     = Raise (AttributeError ''get_ident'')"
  by (simp add: get_map_unguarded [OF roads_source_fields(2,3)] roads_source_fields base_xml_plain)

end
